theory Spec2Isabelle
  imports Complex_Main
begin

section \<open>The facility creation form: data model\<close>

text \<open>
  The form component keeps its draft in React state hooks, validates a snapshot of it against
  the declarative schema \<open>dataSchema\<close>, and on success posts a multipart body.

  JavaScript strings are modelled as \<^typ>\<open>string\<close>, one \<^typ>\<open>char\<close> per code unit, so
  \<^const>\<open>length\<close> is the \<open>.length\<close> the schema's \<open>max\<close> test reads. Coordinates are
  \<^typ>\<open>real\<close>: the map's click events deliver finite numbers, and the only thing the code
  asks of a coordinate is whether it is falsy, which for a finite number means zero.
\<close>

text \<open>A browser \<open>File\<close>: the code reads its \<open>name\<close> and appends the object itself to the body.\<close>

record File =
  file_name :: string
  file_bytes :: "nat list"

text \<open>\<open>interface PreviewImage { name: string; url: string }\<close>. An object URL is identified
  by the serial number the browser gave it.\<close>

record PreviewImage =
  preview_name :: string
  url :: nat

text \<open>\<open>interface ILocation { latitude: number; longitude: number }\<close>\<close>

record ILocation =
  latitude :: real
  longitude :: real

text \<open>The object literal \<open>payload\<close> that \<open>handleSubmit\<close> hands to the schema.\<close>

record payload =
  payload_name :: string
  payload_description :: string
  payload_location :: ILocation
  payload_images :: "File list"
  payload_opening_hours :: string

text \<open>One entry of \<open>ValidationError.inner\<close>: the path of the failing field and the message.\<close>

record ValidationError =
  path :: string
  message :: string

section \<open>The validation schema\<close>

text \<open>
  A test of a field schema inspects the field's value and either passes (\<open>None\<close>) or fails with
  its message. With \<open>abortEarly: false\<close> every test of every field runs and every
  failure is collected under the field's path.
\<close>

type_synonym 'a yup_test = "'a \<Rightarrow> string option"

definition run_tests :: "string \<Rightarrow> 'a yup_test list \<Rightarrow> 'a \<Rightarrow> ValidationError list" where
  "run_tests p ts v = map (\<lambda>m. \<lparr>path = p, message = m\<rparr>) (List.map_filter (\<lambda>t. t v) ts)"

text \<open>\<open>Yup.string().required(msg)\<close>: an empty string counts as absent.\<close>

definition string_required :: "string \<Rightarrow> string yup_test" where
  "string_required msg v = (if v = [] then Some msg else None)"

text \<open>\<open>Yup.string().max(n, msg)\<close> and \<open>Yup.array().max(n, msg)\<close>.\<close>

definition string_max :: "nat \<Rightarrow> string \<Rightarrow> string yup_test" where
  "string_max n msg v = (if length v \<le> n then None else Some msg)"

definition array_max :: "nat \<Rightarrow> string \<Rightarrow> 'a list yup_test" where
  "array_max n msg v = (if length v \<le> n then None else Some msg)"

text \<open>The messages of the schema; the accented letters are written by code point.\<close>

definition msg_required :: string where
  "msg_required = ''Campo obrigat'' @ [CHR 0xF3] @ ''rio''"

definition msg_description_max :: string where
  "msg_description_max =
     ''Descri'' @ [CHR 0xE7, CHR 0xE3] @ ''o muito longa, informe at'' @ [CHR 0xE9] @ '' 300 caracteres''"

definition msg_location :: string where
  "msg_location = ''Informe a localiza'' @ [CHR 0xE7] @ ''ao no mapa''"

definition msg_images_max :: string where
  "msg_images_max = ''Adicione at'' @ [CHR 0xE9] @ '' 5 fotos''"

definition msg_images_empty :: string where
  "msg_images_empty = ''Envie pelo menos uma foto''"

text \<open>JavaScript truthiness of a finite number: \<open>!x\<close> holds exactly for zero.\<close>

definition truthy :: "real \<Rightarrow> bool" where
  "truthy x = (x \<noteq> 0)"

text \<open>The test \<open>validator-location\<close>.\<close>

definition validator_location :: "ILocation yup_test" where
  "validator_location location =
     (if (\<not> truthy (latitude location) \<or> latitude location = 0)
          \<or> (\<not> truthy (longitude location) \<or> longitude location = 0)
      then Some msg_location
      else None)"

text \<open>The test \<open>validator-images\<close>: \<open>images.length <= 0\<close>.\<close>

definition validator_images :: "File list yup_test" where
  "validator_images images = (if int (length images) \<le> 0 then Some msg_images_empty else None)"

text \<open>The five field schemas of \<open>dataSchema\<close>, each under its key.\<close>

definition schema_name :: "string \<Rightarrow> ValidationError list" where
  "schema_name = run_tests ''name'' [string_required msg_required]"

definition schema_description :: "string \<Rightarrow> ValidationError list" where
  "schema_description =
     run_tests ''description'' [string_max 300 msg_description_max, string_required msg_required]"

definition schema_location :: "ILocation \<Rightarrow> ValidationError list" where
  "schema_location = run_tests ''location'' [validator_location]"

definition schema_images :: "File list \<Rightarrow> ValidationError list" where
  "schema_images = run_tests ''images'' [array_max 5 msg_images_max, validator_images]"

definition schema_opening_hours :: "string \<Rightarrow> ValidationError list" where
  "schema_opening_hours = run_tests ''opening_hours'' [string_required msg_required]"

text \<open>The failures of a payload, in the key order of the schema.\<close>

definition dataSchema_errors :: "payload \<Rightarrow> ValidationError list" where
  "dataSchema_errors p =
     schema_name (payload_name p)
     @ schema_description (payload_description p)
     @ schema_location (payload_location p)
     @ schema_images (payload_images p)
     @ schema_opening_hours (payload_opening_hours p)"

text \<open>\<open>dataSchema.validate(payload, { abortEarly: false })\<close>: resolves with the value, or
  throws a \<open>ValidationError\<close> whose \<open>inner\<close> holds every failure.\<close>

definition dataSchema_validate :: "payload \<Rightarrow> ValidationError list + payload" where
  "dataSchema_validate p =
     (let inner = dataSchema_errors p in if inner = [] then Inr p else Inl inner)"

section \<open>The form component\<close>

text \<open>
  The state hooks of the component. \<open>object_urls\<close> is not a hook: it counts the object URLs
  the document has handed out so far, which is what makes every \<open>URL.createObjectURL\<close>
  return a URL no earlier call returned.
\<close>

record form_state =
  selectedPosition :: "real \<times> real"
  name :: string
  description :: string
  opening_hours :: string
  open_on_weekends :: bool
  images :: "File list"
  previewImages :: "PreviewImage list"
  alertName :: string
  alertDescription :: string
  alertPosition :: string
  alertImages :: string
  alertOh :: string
  object_urls :: nat

subsection \<open>The gallery\<close>

text \<open>\<open>selectedImages.map(image => ({ name: image.name, url: URL.createObjectURL(image) }))\<close>,
  threading the document's URL counter through the calls.\<close>

fun selectedImagesPreview :: "File list \<Rightarrow> nat \<Rightarrow> PreviewImage list \<times> nat" where
  "selectedImagesPreview [] n = ([], n)"
| "selectedImagesPreview (img # rest) n =
     (let (ps, n') = selectedImagesPreview rest (Suc n)
      in (\<lparr>preview_name = file_name img, url = n\<rparr> # ps, n'))"

text \<open>\<open>handleSelectImages\<close>; the argument is \<open>event.target.files\<close>, which may be null.\<close>

definition handleSelectImages :: "File list option \<Rightarrow> form_state \<Rightarrow> form_state" where
  "handleSelectImages files st =
     (case files of
        None \<Rightarrow> st
      | Some selectedImages \<Rightarrow>
          (let (preview, n') = selectedImagesPreview selectedImages (object_urls st)
           in st\<lparr>images := selectedImages, previewImages := preview, object_urls := n'\<rparr>))"

text \<open>\<open>handleRemoveImage\<close>: the previews are filtered by \<open>url\<close>, the files by \<open>name\<close>.\<close>

definition handleRemoveImage :: "PreviewImage \<Rightarrow> form_state \<Rightarrow> form_state" where
  "handleRemoveImage removed st =
     st\<lparr>previewImages :=
          filter (\<lambda>img. url img \<noteq> url removed) (map (\<lambda>img. img) (previewImages st)),
        images :=
          filter (\<lambda>img. file_name img \<noteq> preview_name removed) (map (\<lambda>img. img) (images st))\<rparr>"

subsection \<open>The error slots\<close>

definition resetAlerts :: "form_state \<Rightarrow> form_state" where
  "resetAlerts st =
     st\<lparr>alertName := [], alertDescription := [], alertPosition := [],
        alertImages := [], alertOh := []\<rparr>"

text \<open>The \<open>switch (e.path)\<close> of the catch block; a path that is none of the five changes
  nothing.\<close>

definition set_alert :: "ValidationError \<Rightarrow> form_state \<Rightarrow> form_state" where
  "set_alert e st =
     (if path e = ''name'' then st\<lparr>alertName := message e\<rparr>
      else if path e = ''description'' then st\<lparr>alertDescription := message e\<rparr>
      else if path e = ''location'' then st\<lparr>alertPosition := message e\<rparr>
      else if path e = ''images'' then st\<lparr>alertImages := message e\<rparr>
      else if path e = ''opening_hours'' then st\<lparr>alertOh := message e\<rparr>
      else st)"

subsection \<open>The multipart body\<close>

datatype form_value = Text string | Blob File

type_synonym FormData = "(string \<times> form_value) list"

definition fd_append :: "string \<Rightarrow> form_value \<Rightarrow> FormData \<Rightarrow> FormData" where
  "fd_append k v data = data @ [(k, v)]"

text \<open>\<open>String(localStorage.getItem(key))\<close>: \<open>getItem\<close> answers null for a key that is not
  stored, and \<open>String(null)\<close> is the text \<open>null\<close>.\<close>

definition String_of_item :: "string option \<Rightarrow> string" where
  "String_of_item v = (case v of None \<Rightarrow> ''null'' | Some s \<Rightarrow> s)"

definition String_of_bool :: "bool \<Rightarrow> string" where
  "String_of_bool b = (if b then ''true'' else ''false'')"

definition build_data :: "(string \<rightharpoonup> string) \<Rightarrow> form_state \<Rightarrow> FormData" where
  "build_data localStorage st =
     (let data = [];
          data = fd_append ''name'' (Text (name st)) data;
          data = fd_append ''description'' (Text (description st)) data;
          data = fd_append ''latitude'' (Text (String_of_item (localStorage ''hope:latitude''))) data;
          data = fd_append ''longitude'' (Text (String_of_item (localStorage ''hope:longitude''))) data;
          data = fd_append ''opening_hours'' (Text (opening_hours st)) data;
          data = fd_append ''open_on_weekends'' (Text (String_of_bool (open_on_weekends st))) data
      in fold (\<lambda>img. fd_append ''images'' (Blob img)) (images st) data)"

subsection \<open>Submission\<close>

text \<open>
  What \<open>api.post\<close> settles with. A rejection is read through \<open>error.response.data\<close>:
  \<open>Rejected None\<close> is an error that carries no response body to destructure (the read
  throws a \<open>TypeError\<close>), \<open>Rejected (Some v)\<close> one whose body has \<open>v\<close> as its \<open>bcode\<close>.
\<close>

datatype jsvalue = JUndefined | JNumber real | JString string

datatype post_result = Fulfilled | Rejected "jsvalue option"

datatype swal_content = SwalText string | SwalHtml string

record swal =
  title :: string
  content :: swal_content
  icon :: string
  confirmButtonText :: string

definition swal_success :: swal where
  "swal_success =
     \<lparr>title = ''Uhull!'', content = SwalText ''Orfanato cadastrado com sucesso.'',
      icon = ''success'', confirmButtonText = ''Ok''\<rparr>"

definition swal_duplicate :: "string \<Rightarrow> swal" where
  "swal_duplicate nm =
     \<lparr>title = ''Oops!'',
      content = SwalHtml (''J'' @ [CHR 0xE1] @ '' existe um cadastro com o nome: </br><i>'' @ nm @ ''</i>''),
      icon = ''warning'', confirmButtonText = ''Voltar''\<rparr>"

definition swal_unknown :: swal where
  "swal_unknown =
     \<lparr>title = ''Oops!'',
      content = SwalHtml ''Ocorreu um erro desconhecido.</br>Veja o console do navegador :('',
      icon = ''error'', confirmButtonText = ''Voltar''\<rparr>"

text \<open>Everything one run of \<open>handleSubmit\<close> does: the state it leaves, the requests it sent,
  the notices it fired, the routes it navigated to, and whether an error escaped it.\<close>

record submit_outcome =
  state :: form_state
  posted :: "(string \<times> FormData) list"
  fired :: "swal list"
  navigated :: "string list"
  uncaught :: bool

text \<open>The object literal \<open>payload\<close> built from the hooks.\<close>

definition snapshot :: "form_state \<Rightarrow> payload" where
  "snapshot st =
     \<lparr>payload_name = name st,
      payload_description = description st,
      payload_location =
        \<lparr>latitude = (if truthy (fst (selectedPosition st)) then fst (selectedPosition st) else 0),
         longitude = (if truthy (snd (selectedPosition st)) then snd (selectedPosition st) else 0)\<rparr>,
      payload_images = images st,
      payload_opening_hours = opening_hours st\<rparr>"

definition handleSubmit ::
  "(string \<Rightarrow> FormData \<Rightarrow> post_result) \<Rightarrow> (string \<rightharpoonup> string) \<Rightarrow> form_state \<Rightarrow> submit_outcome" where
  "handleSubmit api_post localStorage st =
     (let st1 = resetAlerts st in
      case dataSchema_validate (snapshot st) of
        Inl inner \<Rightarrow>
          \<lparr>state = fold set_alert inner st1, posted = [], fired = [], navigated = [],
           uncaught = False\<rparr>
      | Inr _ \<Rightarrow>
          (let data = build_data localStorage st in
           case api_post ''orphanages'' data of
             Fulfilled \<Rightarrow>
               \<lparr>state = st1, posted = [(''orphanages'', data)], fired = [swal_success],
                navigated = [''/map''], uncaught = False\<rparr>
           | Rejected None \<Rightarrow>
               \<lparr>state = st1, posted = [(''orphanages'', data)], fired = [], navigated = [],
                uncaught = True\<rparr>
           | Rejected (Some bcode) \<Rightarrow>
               (if bcode = JNumber 1001
                then \<lparr>state = st1, posted = [(''orphanages'', data)],
                      fired = [swal_duplicate (name st)], navigated = [], uncaught = False\<rparr>
                else \<lparr>state = st1, posted = [(''orphanages'', data)],
                      fired = [swal_unknown], navigated = [], uncaught = False\<rparr>)))"

section \<open>Reading the results\<close>

text \<open>The sequence of failures a draft validates to: the \<open>inner\<close> list of the thrown error, and
  nothing when \<open>dataSchema.validate\<close> resolves.\<close>

definition validate :: "payload \<Rightarrow> ValidationError list" where
  "validate draft = (case dataSchema_validate draft of Inl inner \<Rightarrow> inner | Inr _ \<Rightarrow> [])"

text \<open>\<open>FormData.getAll(key)\<close>: the values appended under a key, in order.\<close>

definition fd_getAll :: "string \<Rightarrow> FormData \<Rightarrow> form_value list" where
  "fd_getAll k data = map snd (filter (\<lambda>kv. fst kv = k) data)"

subsection \<open>Concrete forms\<close>

text \<open>A form whose name is still empty and whose other fields are filled in; the slots hold
  stale messages of an earlier attempt.\<close>

definition scenario_state :: form_state where
  "scenario_state =
     \<lparr>selectedPosition = (10, 10), name = [], description = ''valid'', opening_hours = ''9-5'',
      open_on_weekends = True,
      images = [\<lparr>file_name = ''f1.png'', file_bytes = [1]\<rparr>],
      previewImages = [\<lparr>preview_name = ''f1.png'', url = 0\<rparr>],
      alertName = [], alertDescription = ''stale'', alertPosition = ''stale'',
      alertImages = ''stale'', alertOh = ''stale'', object_urls = 1\<rparr>"

text \<open>The same form with every field filled in.\<close>

definition valid_state :: form_state where
  "valid_state =
     scenario_state\<lparr>name := ''Lar'', selectedPosition := (10, 20), open_on_weekends := False\<rparr>"

text \<open>The form after the user picked two different files that carry the same display name,
  and the preview of the first of them.\<close>

definition same_name_state :: form_state where
  "same_name_state =
     handleSelectImages
       (Some [\<lparr>file_name = ''a.png'', file_bytes = [1]\<rparr>, \<lparr>file_name = ''a.png'', file_bytes = [2]\<rparr>])
       valid_state"

definition first_preview :: PreviewImage where
  "first_preview = \<lparr>preview_name = ''a.png'', url = 1\<rparr>"

section \<open>Validation\<close>

lemma validate_eq: "validate p = dataSchema_errors p"
  by (simp add: validate_def dataSchema_validate_def Let_def)

lemma schema_name_eq:
  "schema_name v = (if v = [] then [\<lparr>path = ''name'', message = msg_required\<rparr>] else [])"
  by (simp add: schema_name_def run_tests_def List.map_filter_simps string_required_def)

lemma schema_opening_hours_eq:
  "schema_opening_hours v =
     (if v = [] then [\<lparr>path = ''opening_hours'', message = msg_required\<rparr>] else [])"
  by (simp add: schema_opening_hours_def run_tests_def List.map_filter_simps string_required_def)

lemma schema_description_eq:
  "schema_description v =
     (if v = [] then [\<lparr>path = ''description'', message = msg_required\<rparr>]
      else if 300 < length v then [\<lparr>path = ''description'', message = msg_description_max\<rparr>]
      else [])"
  by (simp add: schema_description_def run_tests_def List.map_filter_simps string_required_def
      string_max_def)

lemma schema_location_eq:
  "schema_location l =
     (if latitude l = 0 \<or> longitude l = 0 then [\<lparr>path = ''location'', message = msg_location\<rparr>]
      else [])"
  by (simp add: schema_location_def run_tests_def List.map_filter_simps validator_location_def
      truthy_def)

lemma schema_images_eq:
  "schema_images v =
     (if v = [] then [\<lparr>path = ''images'', message = msg_images_empty\<rparr>]
      else if 5 < length v then [\<lparr>path = ''images'', message = msg_images_max\<rparr>]
      else [])"
  by (simp add: schema_images_def run_tests_def List.map_filter_simps validator_images_def
      array_max_def)

lemmas schema_eqs = schema_name_eq schema_description_eq schema_location_eq schema_images_eq
  schema_opening_hours_eq

lemma paths_simps:
  "path ` set (schema_name a) = (if a = [] then {''name''} else {})"
  "path ` set (schema_description b) =
     (if b = [] \<or> 300 < length b then {''description''} else {})"
  "path ` set (schema_location l) =
     (if latitude l = 0 \<or> longitude l = 0 then {''location''} else {})"
  "path ` set (schema_images i) = (if i = [] \<or> 5 < length i then {''images''} else {})"
  "path ` set (schema_opening_hours h) = (if h = [] then {''opening_hours''} else {})"
  by (simp_all add: schema_eqs)

lemma distinct_paths: "distinct (map path (dataSchema_errors p))"
  by (simp add: dataSchema_errors_def paths_simps) (simp add: schema_eqs)

lemma errors_Nil_iff:
  "dataSchema_errors p = [] \<longleftrightarrow>
         payload_name p \<noteq> [] \<and> payload_description p \<noteq> [] \<and> length (payload_description p) \<le> 300
       \<and> latitude (payload_location p) \<noteq> 0 \<and> longitude (payload_location p) \<noteq> 0
       \<and> payload_images p \<noteq> [] \<and> length (payload_images p) \<le> 5
       \<and> payload_opening_hours p \<noteq> []"
  by (auto simp add: dataSchema_errors_def schema_eqs)

text \<open>
  C1. For every draft, validation runs all five field rules and reports exactly the fields
  that fail their rule: the set of reported paths is the union of one contribution per field,
  each decided by that field alone; no field is reported twice; and a draft whose five fields
  all pass yields no error at all.
\<close>

theorem validate_reports_exactly_the_failing_fields:
  "path ` set (validate p) =
      (if payload_name p = [] then {''name''} else {})
    \<union> (if payload_description p = [] \<or> 300 < length (payload_description p)
       then {''description''} else {})
    \<union> (if latitude (payload_location p) = 0 \<or> longitude (payload_location p) = 0
       then {''location''} else {})
    \<union> (if payload_images p = [] \<or> 5 < length (payload_images p) then {''images''} else {})
    \<union> (if payload_opening_hours p = [] then {''opening_hours''} else {})
   \<and> distinct (map path (validate p))
   \<and> (validate p = [] \<longleftrightarrow>
         payload_name p \<noteq> [] \<and> payload_description p \<noteq> [] \<and> length (payload_description p) \<le> 300
       \<and> latitude (payload_location p) \<noteq> 0 \<and> longitude (payload_location p) \<noteq> 0
       \<and> payload_images p \<noteq> [] \<and> length (payload_images p) \<le> 5
       \<and> payload_opening_hours p \<noteq> [])"
proof -
  have "path ` set (dataSchema_errors p) =
      (if payload_name p = [] then {''name''} else {})
    \<union> (if payload_description p = [] \<or> 300 < length (payload_description p)
       then {''description''} else {})
    \<union> (if latitude (payload_location p) = 0 \<or> longitude (payload_location p) = 0
       then {''location''} else {})
    \<union> (if payload_images p = [] \<or> 5 < length (payload_images p) then {''images''} else {})
    \<union> (if payload_opening_hours p = [] then {''opening_hours''} else {})"
    unfolding dataSchema_errors_def set_append image_Un paths_simps by (simp only: Un_assoc)
  then show ?thesis
    using distinct_paths [of p] errors_Nil_iff [of p] by (simp only: validate_eq simp_thms)
qed

text \<open>
  C7. The location rule passes if and only if both latitude and longitude are non-zero; the
  pairs (0, 5), (5, 0) and (0, 0) each fail it with the location message.
\<close>

theorem location_rule_both_nonzero:
  "(schema_location loc = [] \<longleftrightarrow> latitude loc \<noteq> 0 \<and> longitude loc \<noteq> 0)
   \<and> schema_location \<lparr>latitude = 0, longitude = 5\<rparr>
       = [\<lparr>path = ''location'', message = msg_location\<rparr>]
   \<and> schema_location \<lparr>latitude = 5, longitude = 0\<rparr>
       = [\<lparr>path = ''location'', message = msg_location\<rparr>]
   \<and> schema_location \<lparr>latitude = 0, longitude = 0\<rparr>
       = [\<lparr>path = ''location'', message = msg_location\<rparr>]"
  by (simp add: schema_location_eq)

text \<open>
  C8. The attachments rule fails with one error under the path \<open>images\<close> when the list is
  empty and also when it has more than five entries; exactly the lists of one to five entries
  pass.
\<close>

theorem images_rule_one_to_five:
  "(schema_images imgs = [] \<longleftrightarrow> 1 \<le> length imgs \<and> length imgs \<le> 5)
   \<and> schema_images imgs =
       (if imgs = [] then [\<lparr>path = ''images'', message = msg_images_empty\<rparr>]
        else if 5 < length imgs then [\<lparr>path = ''images'', message = msg_images_max\<rparr>]
        else [])"
  by (cases imgs) (simp_all add: schema_images_eq)

text \<open>
  C9. The description rule fails if and only if the text is empty or longer than 300
  characters; a description of exactly 300 characters passes, one of 301 fails with the
  length message and the empty one with the required message.
\<close>

theorem description_rule_nonempty_max_300:
  "(schema_description d \<noteq> [] \<longleftrightarrow> d = [] \<or> 300 < length d)
   \<and> schema_description (replicate 300 c) = []
   \<and> schema_description (replicate 301 c)
       = [\<lparr>path = ''description'', message = msg_description_max\<rparr>]
   \<and> schema_description [] = [\<lparr>path = ''description'', message = msg_required\<rparr>]"
  by (simp add: schema_description_eq)

section \<open>Error slots\<close>

lemma fold_set_alert_alertName_kept:
  "''name'' \<notin> path ` set es \<Longrightarrow> alertName (fold set_alert es s) = alertName s"
  by (induction es arbitrary: s) (auto simp add: set_alert_def)

lemma fold_set_alert_alertName_written:
  "distinct (map path es) \<Longrightarrow> e \<in> set es \<Longrightarrow> path e = ''name''
    \<Longrightarrow> alertName (fold set_alert es s) = message e"
proof (induction es arbitrary: s)
  case Nil
  then show ?case by simp
next
  case (Cons a es)
  show ?case
  proof (cases "e = a")
    case True
    with Cons.prems have "''name'' \<notin> path ` set es" and "path a = ''name''" by auto
    then show ?thesis
      using True by (simp add: fold_set_alert_alertName_kept) (simp add: set_alert_def)
  next
    case False
    with Cons show ?thesis by simp
  qed
qed

lemma fold_set_alert_alertDescription_kept:
  "''description'' \<notin> path ` set es \<Longrightarrow> alertDescription (fold set_alert es s) = alertDescription s"
  by (induction es arbitrary: s) (auto simp add: set_alert_def)

lemma fold_set_alert_alertDescription_written:
  "distinct (map path es) \<Longrightarrow> e \<in> set es \<Longrightarrow> path e = ''description''
    \<Longrightarrow> alertDescription (fold set_alert es s) = message e"
proof (induction es arbitrary: s)
  case Nil
  then show ?case by simp
next
  case (Cons a es)
  show ?case
  proof (cases "e = a")
    case True
    with Cons.prems have "''description'' \<notin> path ` set es" and "path a = ''description''" by auto
    then show ?thesis
      using True by (simp add: fold_set_alert_alertDescription_kept) (simp add: set_alert_def)
  next
    case False
    with Cons show ?thesis by simp
  qed
qed

lemma fold_set_alert_alertPosition_kept:
  "''location'' \<notin> path ` set es \<Longrightarrow> alertPosition (fold set_alert es s) = alertPosition s"
  by (induction es arbitrary: s) (auto simp add: set_alert_def)

lemma fold_set_alert_alertPosition_written:
  "distinct (map path es) \<Longrightarrow> e \<in> set es \<Longrightarrow> path e = ''location''
    \<Longrightarrow> alertPosition (fold set_alert es s) = message e"
proof (induction es arbitrary: s)
  case Nil
  then show ?case by simp
next
  case (Cons a es)
  show ?case
  proof (cases "e = a")
    case True
    with Cons.prems have "''location'' \<notin> path ` set es" and "path a = ''location''" by auto
    then show ?thesis
      using True by (simp add: fold_set_alert_alertPosition_kept) (simp add: set_alert_def)
  next
    case False
    with Cons show ?thesis by simp
  qed
qed

lemma fold_set_alert_alertImages_kept:
  "''images'' \<notin> path ` set es \<Longrightarrow> alertImages (fold set_alert es s) = alertImages s"
  by (induction es arbitrary: s) (auto simp add: set_alert_def)

lemma fold_set_alert_alertImages_written:
  "distinct (map path es) \<Longrightarrow> e \<in> set es \<Longrightarrow> path e = ''images''
    \<Longrightarrow> alertImages (fold set_alert es s) = message e"
proof (induction es arbitrary: s)
  case Nil
  then show ?case by simp
next
  case (Cons a es)
  show ?case
  proof (cases "e = a")
    case True
    with Cons.prems have "''images'' \<notin> path ` set es" and "path a = ''images''" by auto
    then show ?thesis
      using True by (simp add: fold_set_alert_alertImages_kept) (simp add: set_alert_def)
  next
    case False
    with Cons show ?thesis by simp
  qed
qed

lemma fold_set_alert_alertOh_kept:
  "''opening_hours'' \<notin> path ` set es \<Longrightarrow> alertOh (fold set_alert es s) = alertOh s"
  by (induction es arbitrary: s) (auto simp add: set_alert_def)

lemma fold_set_alert_alertOh_written:
  "distinct (map path es) \<Longrightarrow> e \<in> set es \<Longrightarrow> path e = ''opening_hours''
    \<Longrightarrow> alertOh (fold set_alert es s) = message e"
proof (induction es arbitrary: s)
  case Nil
  then show ?case by simp
next
  case (Cons a es)
  show ?case
  proof (cases "e = a")
    case True
    with Cons.prems have "''opening_hours'' \<notin> path ` set es" and "path a = ''opening_hours''" by auto
    then show ?thesis
      using True by (simp add: fold_set_alert_alertOh_kept) (simp add: set_alert_def)
  next
    case False
    with Cons show ?thesis by simp
  qed
qed

lemma scenario_errors:
  "dataSchema_errors (snapshot scenario_state) = [\<lparr>path = ''name'', message = msg_required\<rparr>]"
  by (simp add: dataSchema_errors_def schema_eqs snapshot_def scenario_state_def truthy_def)

lemma valid_state_errors: "dataSchema_errors (snapshot valid_state) = []"
  by (simp add: dataSchema_errors_def schema_eqs snapshot_def scenario_state_def valid_state_def
      truthy_def)

lemma handleSubmit_invalid:
  "dataSchema_errors (snapshot st) \<noteq> [] \<Longrightarrow>
   handleSubmit api_post localStorage st =
     \<lparr>state = fold set_alert (dataSchema_errors (snapshot st)) (resetAlerts st),
      posted = [], fired = [], navigated = [], uncaught = False\<rparr>"
  by (simp add: handleSubmit_def dataSchema_validate_def Let_def)

lemma handleSubmit_valid:
  "dataSchema_errors (snapshot st) = [] \<Longrightarrow>
   handleSubmit api_post localStorage st =
     (let data = build_data localStorage st in
      \<lparr>state = resetAlerts st, posted = [(''orphanages'', data)],
       fired = (case api_post ''orphanages'' data of
                  Fulfilled \<Rightarrow> [swal_success]
                | Rejected None \<Rightarrow> []
                | Rejected (Some bcode) \<Rightarrow>
                    [if bcode = JNumber 1001 then swal_duplicate (name st) else swal_unknown]),
       navigated =
         (case api_post ''orphanages'' data of Fulfilled \<Rightarrow> [''/map''] | Rejected _ \<Rightarrow> []),
       uncaught = (api_post ''orphanages'' data = Rejected None)\<rparr>)"
  by (simp add: handleSubmit_def dataSchema_validate_def Let_def
      split: post_result.splits option.splits)

text \<open>
  C2. On every submit trigger the five error slots are cleared first, so a slot whose field
  has no error is empty afterwards whatever it held before; every error of the snapshotted
  draft is written into the slot of its field; and when there is any error, no request is
  sent, no notice is fired and nothing is navigated to.
\<close>

theorem submit_clears_slots_then_surfaces_errors:
  fixes st api_post localStorage
  defines "errs \<equiv> validate (snapshot st)"
      and "st' \<equiv> state (handleSubmit api_post localStorage st)"
  shows "(\<forall>e \<in> set errs.
            (path e = ''name'' \<longrightarrow> alertName st' = message e)
          \<and> (path e = ''description'' \<longrightarrow> alertDescription st' = message e)
          \<and> (path e = ''location'' \<longrightarrow> alertPosition st' = message e)
          \<and> (path e = ''images'' \<longrightarrow> alertImages st' = message e)
          \<and> (path e = ''opening_hours'' \<longrightarrow> alertOh st' = message e))
       \<and> (''name'' \<notin> path ` set errs \<longrightarrow> alertName st' = [])
       \<and> (''description'' \<notin> path ` set errs \<longrightarrow> alertDescription st' = [])
       \<and> (''location'' \<notin> path ` set errs \<longrightarrow> alertPosition st' = [])
       \<and> (''images'' \<notin> path ` set errs \<longrightarrow> alertImages st' = [])
       \<and> (''opening_hours'' \<notin> path ` set errs \<longrightarrow> alertOh st' = [])
       \<and> (errs \<noteq> [] \<longrightarrow>
             posted (handleSubmit api_post localStorage st) = []
           \<and> fired (handleSubmit api_post localStorage st) = []
           \<and> navigated (handleSubmit api_post localStorage st) = [])"
proof (cases "errs = []")
  case True
  then have "dataSchema_errors (snapshot st) = []" by (simp add: errs_def validate_eq)
  then have "st' = resetAlerts st"
    by (simp add: st'_def handleSubmit_valid Let_def)
  with True show ?thesis by (simp add: resetAlerts_def)
next
  case False
  then have ne: "dataSchema_errors (snapshot st) \<noteq> []" by (simp add: errs_def validate_eq)
  have st': "st' = fold set_alert errs (resetAlerts st)"
    by (simp add: st'_def handleSubmit_invalid [OF ne] errs_def validate_eq)
  have d: "distinct (map path errs)" by (simp add: errs_def validate_eq distinct_paths)
  have r: "alertName (resetAlerts st) = []" "alertDescription (resetAlerts st) = []"
    "alertPosition (resetAlerts st) = []" "alertImages (resetAlerts st) = []"
    "alertOh (resetAlerts st) = []"
    by (simp_all add: resetAlerts_def)
  have written: "\<forall>e \<in> set errs.
            (path e = ''name'' \<longrightarrow> alertName st' = message e)
          \<and> (path e = ''description'' \<longrightarrow> alertDescription st' = message e)
          \<and> (path e = ''location'' \<longrightarrow> alertPosition st' = message e)
          \<and> (path e = ''images'' \<longrightarrow> alertImages st' = message e)
          \<and> (path e = ''opening_hours'' \<longrightarrow> alertOh st' = message e)"
    unfolding st'
    using fold_set_alert_alertName_written [OF d] fold_set_alert_alertDescription_written [OF d]
      fold_set_alert_alertPosition_written [OF d] fold_set_alert_alertImages_written [OF d]
      fold_set_alert_alertOh_written [OF d]
    by blast
  have kept: "''name'' \<notin> path ` set errs \<longrightarrow> alertName st' = []"
    "''description'' \<notin> path ` set errs \<longrightarrow> alertDescription st' = []"
    "''location'' \<notin> path ` set errs \<longrightarrow> alertPosition st' = []"
    "''images'' \<notin> path ` set errs \<longrightarrow> alertImages st' = []"
    "''opening_hours'' \<notin> path ` set errs \<longrightarrow> alertOh st' = []"
    unfolding st'
    by (simp_all add: fold_set_alert_alertName_kept fold_set_alert_alertDescription_kept
        fold_set_alert_alertPosition_kept fold_set_alert_alertImages_kept
        fold_set_alert_alertOh_kept r)
  have quiet: "posted (handleSubmit api_post localStorage st) = []
           \<and> fired (handleSubmit api_post localStorage st) = []
           \<and> navigated (handleSubmit api_post localStorage st) = []"
    by (simp add: handleSubmit_invalid [OF ne])
  from written kept quiet show ?thesis by blast
qed

theorem submit_clears_slots_then_surfaces_errors_witness:
  "validate (snapshot scenario_state) = [\<lparr>path = ''name'', message = msg_required\<rparr>]
   \<and> alertName (state (handleSubmit (\<lambda>_ _. Fulfilled) Map.empty scenario_state)) = msg_required
   \<and> alertDescription (state (handleSubmit (\<lambda>_ _. Fulfilled) Map.empty scenario_state)) = []
   \<and> alertPosition (state (handleSubmit (\<lambda>_ _. Fulfilled) Map.empty scenario_state)) = []
   \<and> alertImages (state (handleSubmit (\<lambda>_ _. Fulfilled) Map.empty scenario_state)) = []
   \<and> alertOh (state (handleSubmit (\<lambda>_ _. Fulfilled) Map.empty scenario_state)) = []
   \<and> posted (handleSubmit (\<lambda>_ _. Fulfilled) Map.empty scenario_state) = []
   \<and> fired (handleSubmit (\<lambda>_ _. Fulfilled) Map.empty scenario_state) = []
   \<and> navigated (handleSubmit (\<lambda>_ _. Fulfilled) Map.empty scenario_state) = []"
  using submit_clears_slots_then_surfaces_errors [of scenario_state "\<lambda>_ _. Fulfilled" Map.empty]
  by (simp add: validate_eq scenario_errors)

section \<open>The transfer payload\<close>

lemma fold_fd_append:
  "fold (\<lambda>img. fd_append k (f img)) xs data = data @ map (\<lambda>img. (k, f img)) xs"
  by (induction xs arbitrary: data) (simp_all add: fd_append_def)

lemma build_data_eq:
  "build_data localStorage st =
     [(''name'', Text (name st)),
      (''description'', Text (description st)),
      (''latitude'', Text (String_of_item (localStorage ''hope:latitude''))),
      (''longitude'', Text (String_of_item (localStorage ''hope:longitude''))),
      (''opening_hours'', Text (opening_hours st)),
      (''open_on_weekends'', Text (String_of_bool (open_on_weekends st)))]
     @ map (\<lambda>img. (''images'', Blob img)) (images st)"
  by (simp add: build_data_def Let_def fold_fd_append) (simp add: fd_append_def)

lemma snapshot_selectedPosition:
  "fst pos \<noteq> 0 \<Longrightarrow> snd pos \<noteq> 0 \<Longrightarrow> dataSchema_errors (snapshot st) = [] \<Longrightarrow>
    dataSchema_errors (snapshot (st\<lparr>selectedPosition := pos\<rparr>)) = []"
  by (simp add: errors_Nil_iff snapshot_def truthy_def)

lemma build_data_selectedPosition:
  "build_data localStorage (st\<lparr>selectedPosition := pos\<rparr>) = build_data localStorage st"
  by (simp add: build_data_eq)

text \<open>
  C3. For every draft that passes validation exactly one request is sent, to \<open>orphanages\<close>,
  and its body is, in order: the name and the description as they are, the latitude and the
  longitude as the device cache holds them under \<open>hope:latitude\<close> and \<open>hope:longitude\<close>,
  the opening hours as they are, the weekend flag as the text \<open>true\<close> or \<open>false\<close>, and then
  each attachment, in gallery order, as a binary part under the one key \<open>images\<close>. The map
  selection that was validated does not enter the body: replacing it by any other set
  position leaves the request the same.
\<close>

theorem submit_payload_fields:
  assumes "validate (snapshot st) = []"
  shows "posted (handleSubmit api_post localStorage st) =
     [(''orphanages'',
       [(''name'', Text (name st)),
        (''description'', Text (description st)),
        (''latitude'',
           Text (case localStorage ''hope:latitude'' of None \<Rightarrow> ''null'' | Some v \<Rightarrow> v)),
        (''longitude'',
           Text (case localStorage ''hope:longitude'' of None \<Rightarrow> ''null'' | Some v \<Rightarrow> v)),
        (''opening_hours'', Text (opening_hours st)),
        (''open_on_weekends'', Text (if open_on_weekends st then ''true'' else ''false''))]
       @ map (\<lambda>img. (''images'', Blob img)) (images st))]
   \<and> (fst pos \<noteq> 0 \<and> snd pos \<noteq> 0 \<longrightarrow>
        posted (handleSubmit api_post localStorage (st\<lparr>selectedPosition := pos\<rparr>))
        = posted (handleSubmit api_post localStorage st))"
proof -
  from assms have v: "dataSchema_errors (snapshot st) = []" by (simp add: validate_eq)
  have 1: "posted (handleSubmit api_post localStorage st)
             = [(''orphanages'', build_data localStorage st)]"
    by (simp add: handleSubmit_valid [OF v] Let_def)
  have 2: "posted (handleSubmit api_post localStorage (st\<lparr>selectedPosition := pos\<rparr>))
        = posted (handleSubmit api_post localStorage st)" if "fst pos \<noteq> 0" "snd pos \<noteq> 0"
    using snapshot_selectedPosition [OF that v] 1
    by (simp add: handleSubmit_valid Let_def build_data_selectedPosition)
  show ?thesis
    using 1 2 by (simp add: build_data_eq String_of_item_def String_of_bool_def)
qed

theorem submit_payload_fields_witness:
  "validate (snapshot valid_state) = []
   \<and> posted (handleSubmit (\<lambda>_ _. Fulfilled)
        [''hope:latitude'' \<mapsto> ''-23.5'', ''hope:longitude'' \<mapsto> ''-46.6''] valid_state) =
     [(''orphanages'',
       [(''name'', Text ''Lar''),
        (''description'', Text ''valid''),
        (''latitude'', Text ''-23.5''),
        (''longitude'', Text ''-46.6''),
        (''opening_hours'', Text ''9-5''),
        (''open_on_weekends'', Text ''false''),
        (''images'', Blob \<lparr>file_name = ''f1.png'', file_bytes = [1]\<rparr>)])]
   \<and> posted (handleSubmit (\<lambda>_ _. Fulfilled)
        [''hope:latitude'' \<mapsto> ''-23.5'', ''hope:longitude'' \<mapsto> ''-46.6'']
        (valid_state\<lparr>selectedPosition := (1, 1)\<rparr>))
     = posted (handleSubmit (\<lambda>_ _. Fulfilled)
        [''hope:latitude'' \<mapsto> ''-23.5'', ''hope:longitude'' \<mapsto> ''-46.6''] valid_state)"
  using submit_payload_fields [of valid_state "\<lambda>_ _. Fulfilled"
      "[''hope:latitude'' \<mapsto> ''-23.5'', ''hope:longitude'' \<mapsto> ''-46.6'']" "(1, 1)"]
  by (simp add: validate_eq valid_state_errors) (simp add: valid_state_def scenario_state_def)

text \<open>
  C10. A draft that passed validation is submitted whatever the device cache holds: exactly
  one request is sent, and when the cache has no stored latitude (longitude) the body carries,
  as its one latitude (longitude) field, the four-character text \<open>null\<close>.
\<close>

theorem submit_without_cached_position_sends_null:
  assumes "validate (snapshot st) = []"
  shows "length (posted (handleSubmit api_post localStorage st)) = 1
    \<and> (localStorage ''hope:latitude'' = None \<longrightarrow>
         map (fd_getAll ''latitude'' \<circ> snd) (posted (handleSubmit api_post localStorage st))
         = [[Text ''null'']])
    \<and> (localStorage ''hope:longitude'' = None \<longrightarrow>
         map (fd_getAll ''longitude'' \<circ> snd) (posted (handleSubmit api_post localStorage st))
         = [[Text ''null'']])
    \<and> length ''null'' = 4"
proof -
  from assms have v: "dataSchema_errors (snapshot st) = []" by (simp add: validate_eq)
  have 1: "posted (handleSubmit api_post localStorage st)
             = [(''orphanages'', build_data localStorage st)]"
    by (simp add: handleSubmit_valid [OF v] Let_def)
  have 2: "fd_getAll ''latitude'' (build_data localStorage st)
            = [Text (String_of_item (localStorage ''hope:latitude''))]"
    "fd_getAll ''longitude'' (build_data localStorage st)
            = [Text (String_of_item (localStorage ''hope:longitude''))]"
    by (simp_all add: build_data_eq fd_getAll_def filter_map o_def)
  show ?thesis
    by (simp add: 1 2 String_of_item_def)
qed

theorem submit_without_cached_position_sends_null_witness:
  "validate (snapshot valid_state) = []
   \<and> length (posted (handleSubmit (\<lambda>_ _. Fulfilled) Map.empty valid_state)) = 1
   \<and> map (fd_getAll ''latitude'' \<circ> snd)
        (posted (handleSubmit (\<lambda>_ _. Fulfilled) Map.empty valid_state)) = [[Text ''null'']]
   \<and> map (fd_getAll ''longitude'' \<circ> snd)
        (posted (handleSubmit (\<lambda>_ _. Fulfilled) Map.empty valid_state)) = [[Text ''null'']]"
  using submit_without_cached_position_sends_null [of valid_state "\<lambda>_ _. Fulfilled" Map.empty]
  by (simp add: validate_eq valid_state_errors)

section \<open>Network failure\<close>

text \<open>
  What the code does when the one request of a valid draft is rejected. Whatever the rejection
  carries, the five error slots are empty afterwards and nothing is navigated to. When it
  carries a response body, exactly one notice is fired and the business code alone decides
  which: the warning that names the submitted name for the number 1001, the generic error
  notice for anything else.
\<close>

lemma rejection_leaves_slots_empty:
  assumes "validate (snapshot st) = []"
      and "api_post ''orphanages'' (build_data localStorage st) = Rejected r"
  shows "navigated (handleSubmit api_post localStorage st) = []"
    and "length (posted (handleSubmit api_post localStorage st)) = 1"
    and "alertName (state (handleSubmit api_post localStorage st)) = []"
    and "alertDescription (state (handleSubmit api_post localStorage st)) = []"
    and "alertPosition (state (handleSubmit api_post localStorage st)) = []"
    and "alertImages (state (handleSubmit api_post localStorage st)) = []"
    and "alertOh (state (handleSubmit api_post localStorage st)) = []"
proof -
  from assms have v: "dataSchema_errors (snapshot st) = []" by (simp add: validate_eq)
  show "navigated (handleSubmit api_post localStorage st) = []"
    and "length (posted (handleSubmit api_post localStorage st)) = 1"
    and "alertName (state (handleSubmit api_post localStorage st)) = []"
    and "alertDescription (state (handleSubmit api_post localStorage st)) = []"
    and "alertPosition (state (handleSubmit api_post localStorage st)) = []"
    and "alertImages (state (handleSubmit api_post localStorage st)) = []"
    and "alertOh (state (handleSubmit api_post localStorage st)) = []"
    using assms(2) by (simp_all add: handleSubmit_valid [OF v] Let_def resetAlerts_def)
qed

lemma rejection_with_body_notice:
  assumes "validate (snapshot st) = []"
      and "api_post ''orphanages'' (build_data localStorage st) = Rejected (Some bcode)"
  shows "fired (handleSubmit api_post localStorage st) =
           [if bcode = JNumber 1001
            then \<lparr>title = ''Oops!'',
                  content = SwalHtml (''J'' @ [CHR 0xE1] @ '' existe um cadastro com o nome: </br><i>''
                                      @ name st @ ''</i>''),
                  icon = ''warning'', confirmButtonText = ''Voltar''\<rparr>
            else \<lparr>title = ''Oops!'',
                  content = SwalHtml
                    ''Ocorreu um erro desconhecido.</br>Veja o console do navegador :('',
                  icon = ''error'', confirmButtonText = ''Voltar''\<rparr>]"
    and "\<not> uncaught (handleSubmit api_post localStorage st)"
proof -
  from assms have v: "dataSchema_errors (snapshot st) = []" by (simp add: validate_eq)
  show "fired (handleSubmit api_post localStorage st) =
           [if bcode = JNumber 1001
            then \<lparr>title = ''Oops!'',
                  content = SwalHtml (''J'' @ [CHR 0xE1] @ '' existe um cadastro com o nome: </br><i>''
                                      @ name st @ ''</i>''),
                  icon = ''warning'', confirmButtonText = ''Voltar''\<rparr>
            else \<lparr>title = ''Oops!'',
                  content = SwalHtml
                    ''Ocorreu um erro desconhecido.</br>Veja o console do navegador :('',
                  icon = ''error'', confirmButtonText = ''Voltar''\<rparr>]"
    using assms(2)
    by (simp add: handleSubmit_valid [OF v] Let_def swal_duplicate_def swal_unknown_def)
  show "\<not> uncaught (handleSubmit api_post localStorage st)"
    using assms(2) by (simp add: handleSubmit_valid [OF v] Let_def)
qed

lemma rejection_without_body_throws:
  assumes "validate (snapshot st) = []"
      and "api_post ''orphanages'' (build_data localStorage st) = Rejected None"
  shows "fired (handleSubmit api_post localStorage st) = []"
    and "uncaught (handleSubmit api_post localStorage st)"
proof -
  from assms have v: "dataSchema_errors (snapshot st) = []" by (simp add: validate_eq)
  show "fired (handleSubmit api_post localStorage st) = []"
    and "uncaught (handleSubmit api_post localStorage st)"
    using assms(2) by (simp_all add: handleSubmit_valid [OF v] Let_def)
qed

text \<open>
  C4. Every failed submission should end in a notice: the duplicate-name notice with the
  submitted name for business code 1001, the generic failure notice otherwise, and never a
  populated error slot. The form \<open>valid_state\<close> (name \<open>Lar\<close>) passes validation. When its
  request is rejected with a body, the code does so: code 1001 fires the warning that names
  \<open>Lar\<close>, code 9999 the generic error notice. When the request is rejected by an error that
  carries no response, as a transport failure is, reading \<open>error.response.data\<close> throws inside
  the handler: no notice is fired at all and the error escapes, the slots staying empty.
\<close>

theorem rejection_without_response_fires_no_notice:
  "validate (snapshot valid_state) = []
   \<and> fired (handleSubmit (\<lambda>_ _. Rejected None) Map.empty valid_state) = []
   \<and> uncaught (handleSubmit (\<lambda>_ _. Rejected None) Map.empty valid_state)
   \<and> navigated (handleSubmit (\<lambda>_ _. Rejected None) Map.empty valid_state) = []
   \<and> alertName (state (handleSubmit (\<lambda>_ _. Rejected None) Map.empty valid_state)) = []
   \<and> alertDescription (state (handleSubmit (\<lambda>_ _. Rejected None) Map.empty valid_state)) = []
   \<and> alertPosition (state (handleSubmit (\<lambda>_ _. Rejected None) Map.empty valid_state)) = []
   \<and> alertImages (state (handleSubmit (\<lambda>_ _. Rejected None) Map.empty valid_state)) = []
   \<and> alertOh (state (handleSubmit (\<lambda>_ _. Rejected None) Map.empty valid_state)) = []
   \<and> fired (handleSubmit (\<lambda>_ _. Rejected (Some (JNumber 1001))) Map.empty valid_state)
       = [\<lparr>title = ''Oops!'',
           content = SwalHtml (''J'' @ [CHR 0xE1]
                               @ '' existe um cadastro com o nome: </br><i>Lar</i>''),
           icon = ''warning'', confirmButtonText = ''Voltar''\<rparr>]
   \<and> fired (handleSubmit (\<lambda>_ _. Rejected (Some (JNumber 9999))) Map.empty valid_state)
       = [\<lparr>title = ''Oops!'',
           content = SwalHtml ''Ocorreu um erro desconhecido.</br>Veja o console do navegador :('',
           icon = ''error'', confirmButtonText = ''Voltar''\<rparr>]
   \<and> fired (handleSubmit (\<lambda>_ _. Rejected (Some (JString ''1001''))) Map.empty valid_state)
       = [\<lparr>title = ''Oops!'',
           content = SwalHtml ''Ocorreu um erro desconhecido.</br>Veja o console do navegador :('',
           icon = ''error'', confirmButtonText = ''Voltar''\<rparr>]"
proof -
  have n: "name valid_state = ''Lar''" by (simp add: valid_state_def scenario_state_def)
  show ?thesis
    by (simp add: validate_eq valid_state_errors handleSubmit_valid [OF valid_state_errors]
        Let_def resetAlerts_def swal_duplicate_def swal_unknown_def n)
qed

section \<open>The gallery\<close>

lemma selectedImagesPreview_eq:
  "selectedImagesPreview fs n =
     (map (\<lambda>(f, u). \<lparr>preview_name = file_name f, url = u\<rparr>) (zip fs [n ..< n + length fs]),
      n + length fs)"
proof (induction fs arbitrary: n)
  case Nil
  show ?case by simp
next
  case (Cons f fs)
  have "[n ..< n + length (f # fs)] = n # [Suc n ..< Suc n + length fs]"
    by (simp add: upt_rec)
  with Cons show ?case by simp
qed

lemma handleSelectImages_Some:
  "handleSelectImages (Some fs) st =
     st\<lparr>images := fs,
        previewImages :=
          map (\<lambda>(f, u). \<lparr>preview_name = file_name f, url = u\<rparr>)
            (zip fs [object_urls st ..< object_urls st + length fs]),
        object_urls := object_urls st + length fs\<rparr>"
  by (simp add: handleSelectImages_def selectedImagesPreview_eq)

text \<open>
  C6. For every two picked file lists A and B, picking A and then B leaves the gallery equal
  to B, in pick order, and its preview list equal to one preview per file of B, in the same
  order, each with the file's name and a fresh object URL: nothing of A remains.
\<close>

theorem select_images_replaces_gallery:
  "images (handleSelectImages (Some B) (handleSelectImages (Some A) st)) = B
   \<and> previewImages (handleSelectImages (Some B) (handleSelectImages (Some A) st)) =
       map (\<lambda>(f, u). \<lparr>preview_name = file_name f, url = u\<rparr>)
         (zip B [object_urls st + length A ..< object_urls st + length A + length B])
   \<and> map preview_name (previewImages (handleSelectImages (Some B) (handleSelectImages (Some A) st)))
       = map file_name B
   \<and> length (previewImages (handleSelectImages (Some B) (handleSelectImages (Some A) st)))
       = length B"
proof -
  have "map (preview_name \<circ> (\<lambda>(f, u). \<lparr>preview_name = file_name f, url = u\<rparr>)) (zip B us)
          = map file_name B" if "length us = length B" for us :: "nat list"
    using that by (induction B us rule: list_induct2') simp_all
  then show ?thesis
    by (simp add: handleSelectImages_Some)
qed

text \<open>
  A pick leaves the previews in step with the files and their URLs pairwise different. On
  such a gallery with pairwise different display names, removing a preview that is present
  shortens both lists by one, and removing one whose URL and name are both absent changes
  nothing.
\<close>

lemma picked_gallery_in_step:
  fixes st :: form_state
  shows "map preview_name (previewImages (handleSelectImages (Some fs) st)) = map file_name fs"
    and "distinct (map url (previewImages (handleSelectImages (Some fs) st)))"
proof -
  let ?us = "[object_urls st ..< object_urls st + length fs]"
  have len: "length ?us = length fs" by simp
  have "map (preview_name \<circ> (\<lambda>(f, u). \<lparr>preview_name = file_name f, url = u\<rparr>)) (zip fs us)
          = map file_name fs" if "length us = length fs" for us :: "nat list"
    using that by (induction fs us rule: list_induct2') simp_all
  from this [OF len]
  show "map preview_name (previewImages (handleSelectImages (Some fs) st)) = map file_name fs"
    by (simp add: handleSelectImages_Some)
  have "map (url \<circ> (\<lambda>(f, u). \<lparr>preview_name = file_name f, url = u\<rparr>)) (zip fs us) = us"
    if "length us = length fs" for us :: "nat list"
    using that by (induction fs us rule: list_induct2') simp_all
  from this [OF len]
  show "distinct (map url (previewImages (handleSelectImages (Some fs) st)))"
    by (simp add: handleSelectImages_Some)
qed

lemma length_filter_distinct_key:
  "distinct (map f xs) \<Longrightarrow> v \<in> f ` set xs \<Longrightarrow>
     Suc (length (filter (\<lambda>x. f x \<noteq> v) xs)) = length xs"
proof (induction xs)
  case Nil
  then show ?case by simp
next
  case (Cons a xs)
  show ?case
  proof (cases "f a = v")
    case True
    with Cons.prems have "v \<notin> f ` set xs" by simp
    then have "\<forall>x \<in> set xs. f x \<noteq> v" by blast
    then have "filter (\<lambda>x. f x \<noteq> v) xs = xs" by (simp add: filter_id_conv)
    with True show ?thesis by simp
  next
    case False
    with Cons show ?thesis by auto
  qed
qed

lemma handleRemoveImage_distinct_names:
  fixes a :: PreviewImage and st :: form_state
  assumes "distinct (map file_name (images st))"
      and "distinct (map url (previewImages st))"
      and "map preview_name (previewImages st) = map file_name (images st)"
      and "a \<in> set (previewImages st)"
  shows "Suc (length (images (handleRemoveImage a st))) = length (images st)"
    and "Suc (length (previewImages (handleRemoveImage a st))) = length (previewImages st)"
proof -
  from assms(4) have "preview_name a \<in> set (map preview_name (previewImages st))" by simp
  with assms(3) have "preview_name a \<in> file_name ` set (images st)" by simp
  from length_filter_distinct_key [OF assms(1) this]
  show "Suc (length (images (handleRemoveImage a st))) = length (images st)"
    by (simp add: handleRemoveImage_def)
  from assms(4) have "url a \<in> url ` set (previewImages st)" by simp
  from length_filter_distinct_key [OF assms(2) this]
  show "Suc (length (previewImages (handleRemoveImage a st))) = length (previewImages st)"
    by (simp add: handleRemoveImage_def)
qed

lemma handleRemoveImage_absent:
  fixes a :: PreviewImage and st :: form_state
  assumes "url a \<notin> url ` set (previewImages st)"
      and "preview_name a \<notin> file_name ` set (images st)"
  shows "handleRemoveImage a st = st"
proof -
  from assms have "\<forall>img \<in> set (previewImages st). url img \<noteq> url a"
    and "\<forall>img \<in> set (images st). file_name img \<noteq> preview_name a"
    by (auto simp add: image_iff)
  then have "filter (\<lambda>img. url img \<noteq> url a) (previewImages st) = previewImages st"
    and "filter (\<lambda>img. file_name img \<noteq> preview_name a) (images st) = images st"
    by (simp_all add: filter_id_conv)
  then show ?thesis by (simp add: handleRemoveImage_def)
qed


text \<open>
  C5. Removing a preview that is present should shorten both the file list and the preview
  list by exactly one entry. On a gallery of two files that share a display name, removing
  the first preview leaves one preview but no file at all: the file list is filtered by name
  and loses both.
\<close>

theorem remove_same_name_drops_every_copy:
  "images same_name_state =
     [\<lparr>file_name = ''a.png'', file_bytes = [1]\<rparr>, \<lparr>file_name = ''a.png'', file_bytes = [2]\<rparr>]
   \<and> previewImages same_name_state = [first_preview, \<lparr>preview_name = ''a.png'', url = 2\<rparr>]
   \<and> previewImages (handleRemoveImage first_preview same_name_state)
       = [\<lparr>preview_name = ''a.png'', url = 2\<rparr>]
   \<and> images (handleRemoveImage first_preview same_name_state) = []"
  by (simp add: same_name_state_def first_preview_def handleSelectImages_def
      handleRemoveImage_def valid_state_def scenario_state_def)

end
